theory Spec2Isabelle
  imports Complex_Main "HOL-Library.Word" "HOL-Library.Signed_Division"
begin

section \<open>Data model (internal/service/service.go)\<close>

text \<open>
  Go's \<open>int64\<close> is a 64-bit word read in two's complement (\<open>sint\<close>); \<open>atomic.AddInt64\<close>
  and \<open>++\<close> wrap around. The \<open>int\<close> fields of an event (coordinates, offsets) are only
  copied, never computed with, and are kept as integers.

  A \<open>time.Time\<close> is a count of nanoseconds since the zero time, a \<open>time.Duration\<close> a count
  of nanoseconds in the range of \<open>int64\<close>.
\<close>

type_synonym int64 = "64 word"
type_synonym time = int
type_synonym duration = int

definition maxDuration :: duration where
  "maxDuration = 2 ^ 63 - 1"

definition minDuration :: duration where
  "minDuration = - (2 ^ 63)"

definition Minute :: duration where
  "Minute = 60000000000"

definition Second :: duration where
  "Second = 1000000000"

text \<open>\<open>t.Sub(u)\<close> of package time: the difference, saturated to the range of a Duration.\<close>

definition time_Sub :: "time \<Rightarrow> time \<Rightarrow> duration" where
  "time_Sub t u =
     (let d = t - u
      in if d > maxDuration then maxDuration
         else if d < minDuration then minDuration
         else d)"

definition IsZero :: "time \<Rightarrow> bool" where
  "IsZero t = (t = 0)"

text \<open>
  \<open>d.Minutes()\<close> and \<open>d.Seconds()\<close> of package time: whole units by Go's truncating
  division plus the remainder as a fraction. The \<open>float64\<close> results are taken as real
  numbers; rounding to 53 bits is not part of the model.
\<close>

definition Minutes :: "duration \<Rightarrow> real" where
  "Minutes d = real_of_int (d sdiv Minute) + real_of_int (d smod Minute) / (60 * 1000000000)"

definition Seconds :: "duration \<Rightarrow> real" where
  "Seconds d = real_of_int (d sdiv Second) + real_of_int (d smod Second) / 1000000000"

text \<open>
  The values of \<open>map[string]interface{}\<close> as \<open>encoding/json\<close> decodes them. The entries
  of the map are listed in the order in which a \<open>range\<close> loop visits them.
\<close>

datatype custom_value =
    VString string
  | VNumber real
  | VBool bool
  | VNull
  | VArray "custom_value list"
  | VObject "(string \<times> custom_value) list"

record TrackingEvent =
  EventType :: string
  Timestamp :: time
  CursorX :: int
  CursorY :: int
  ElementID :: string
  ElementType :: string
  PageURL :: string
  UserAgent :: string
  SessionID :: string
  ViewportX :: int
  ViewportY :: int
  ScrollX :: int
  ScrollY :: int
  ElementText :: string
  Custom :: "(string \<times> custom_value) list"

record SessionData =
  ID :: string
  StartTime :: time
  LastActive :: time
  ClickCount :: int64
  Events :: "TrackingEvent list"

record HealthMetrics =
  Uptime :: duration
  TotalClicks :: int64
  PageViews :: int64
  ActiveUsers :: int64
  TotalSessions :: int64

subsection \<open>Telemetry and log output\<close>

text \<open>
  The OpenTelemetry instruments and the process-wide \<open>slog\<close> logger are outside the
  repository. Each instrument is modelled by the list of calls made on it, oldest first:
  a counter or histogram by its samples (value and attributes), the tracer by the spans
  in the order in which they are ended, the logger by its records. A span holds one
  value for each attribute key: \<open>SetAttributes\<close> of the \<open>trace.Span\<close> interface
  overwrites the value of a key that the span already has and adds a key that it has not.
\<close>

datatype attr_value =
    AString string
  | AInt int
  | ATime time
  | AReal real

type_synonym attribute = "string \<times> attr_value"

datatype level = Info | Warn | Error

record LogRecord =
  Level :: level
  Msg :: string
  Args :: "attribute list"

datatype code = Unset | CodeError | CodeOk

record Span =
  SpanName :: string
  Attributes :: "attribute list"
  Status :: "code \<times> string"
  RecordedErrors :: "string list"

definition tracer_Start :: "string \<Rightarrow> Span" where
  "tracer_Start n = \<lparr>SpanName = n, Attributes = [], Status = (Unset, []), RecordedErrors = []\<rparr>"

fun setAttribute :: "string \<Rightarrow> attr_value \<Rightarrow> attribute list \<Rightarrow> attribute list" where
  "setAttribute k v [] = [(k, v)]"
| "setAttribute k v ((k', v') # attrs) =
     (if k' = k then (k, v) # attrs else (k', v') # setAttribute k v attrs)"

definition SetAttributes :: "attribute list \<Rightarrow> Span \<Rightarrow> Span" where
  "SetAttributes kv sp =
     sp\<lparr>Attributes := fold (\<lambda>(k, v). setAttribute k v) kv (Attributes sp)\<rparr>"

definition SetStatus :: "code \<Rightarrow> string \<Rightarrow> Span \<Rightarrow> Span" where
  "SetStatus c d sp = sp\<lparr>Status := (c, d)\<rparr>"

definition RecordError :: "string \<Rightarrow> Span \<Rightarrow> Span" where
  "RecordError e sp = sp\<lparr>RecordedErrors := RecordedErrors sp @ [e]\<rparr>"

type_synonym 'v sample = "'v \<times> attribute list"

record Service =
  startTime :: time
  clickCounter :: int64
  pageViews :: int64
  sessionCounter :: int64
  clickRate :: "int64 sample list"
  cursorPositions :: "int64 sample list"
  requestDuration :: "real sample list"
  activeUsers :: "int64 sample list"
  httpRequests :: "int64 sample list"
  sessions :: "string \<rightharpoonup> SessionData"
  tracer :: "Span list"
  slog :: "LogRecord list"

text \<open>
  The field \<open>slog\<close> is not a field of the Go struct: it carries the output of the
  process-wide default logger, which every operation of the service may write to.
\<close>

definition slog_Info :: "string \<Rightarrow> attribute list \<Rightarrow> Service \<Rightarrow> Service" where
  "slog_Info m kv s = s\<lparr>slog := slog s @ [\<lparr>Level = Info, Msg = m, Args = kv\<rparr>]\<rparr>"

definition slog_Warn :: "string \<Rightarrow> attribute list \<Rightarrow> Service \<Rightarrow> Service" where
  "slog_Warn m kv s = s\<lparr>slog := slog s @ [\<lparr>Level = Warn, Msg = m, Args = kv\<rparr>]\<rparr>"

definition slog_Error :: "string \<Rightarrow> attribute list \<Rightarrow> Service \<Rightarrow> Service" where
  "slog_Error m kv s = s\<lparr>slog := slog s @ [\<lparr>Level = Error, Msg = m, Args = kv\<rparr>]\<rparr>"

definition span_End :: "Span \<Rightarrow> Service \<Rightarrow> Service" where
  "span_End sp s = s\<lparr>tracer := tracer s @ [sp]\<rparr>"

text \<open>
  Every \<open>time.Now()\<close> of the source is a reading of the clock, and two readings in one
  call need not agree. The readings that one event can cause are passed in, one field for
  each call site, in the order of the calls: the default timestamp of the handler, the
  three readings of \<open>updateSession\<close> (the two of the session literal are taken for a new
  session only), and the timestamp of the handler's response.
\<close>

record Clock =
  now_Timestamp :: time
  now_StartTime :: time
  now_LastActive :: time
  now_update :: time
  now_response :: time

section \<open>The service\<close>

definition New :: "time \<Rightarrow> Service" where
  "New now =
     \<lparr>startTime = now, clickCounter = 0, pageViews = 0, sessionCounter = 0,
      clickRate = [], cursorPositions = [], requestDuration = [], activeUsers = [],
      httpRequests = [], sessions = Map.empty, tracer = [], slog = []\<rparr>"

text \<open>The \<open>SessionData\<close> literal of \<open>updateSession\<close>.\<close>

definition newSession :: "Clock \<Rightarrow> string \<Rightarrow> SessionData" where
  "newSession clk sid =
     \<lparr>ID = sid, StartTime = now_StartTime clk, LastActive = now_LastActive clk,
      ClickCount = 0, Events = []\<rparr>"

text \<open>
  \<open>updateSession\<close>: \<open>session\<close> is a pointer to the record held by the map, so the
  assignments through it are written back to the entry of the event's session id.
\<close>

definition updateSession :: "Clock \<Rightarrow> TrackingEvent \<Rightarrow> Service \<Rightarrow> Service" where
  "updateSession clk event s =
     (let (session, s) =
            (case sessions s (SessionID event) of
               None \<Rightarrow>
                 (let session = newSession clk (SessionID event)
                  in (session,
                      s\<lparr>sessions := (sessions s)(SessionID event \<mapsto> session),
                        sessionCounter := sessionCounter s + 1\<rparr>))
             | Some session \<Rightarrow> (session, s));
          session = session\<lparr>LastActive := now_update clk\<rparr>;
          session = session\<lparr>Events := Events session @ [event]\<rparr>;
          session = (if EventType event = ''click''
                     then session\<lparr>ClickCount := ClickCount session + 1\<rparr>
                     else session)
      in s\<lparr>sessions := (sessions s)(SessionID event \<mapsto> session)\<rparr>)"

definition recordClick :: "TrackingEvent \<Rightarrow> Service \<Rightarrow> Service" where
  "recordClick event s =
     (let s = s\<lparr>clickCounter := clickCounter s + 1\<rparr>;
          s = s\<lparr>clickRate := clickRate s @
                  [(1, [(''element_id'', AString (ElementID event)),
                        (''element_type'', AString (ElementType event)),
                        (''page_url'', AString (PageURL event))])]\<rparr>;
          s = s\<lparr>cursorPositions := cursorPositions s @
                  [(word_of_int (CursorX event),
                    [(''coordinate'', AString ''x''), (''event_type'', AString ''click'')])]\<rparr>;
          s = s\<lparr>cursorPositions := cursorPositions s @
                  [(word_of_int (CursorY event),
                    [(''coordinate'', AString ''y''), (''event_type'', AString ''click'')])]\<rparr>;
          clickSpan = tracer_Start ''click_analytics'';
          clickSpan = SetAttributes
            [(''click.element_id'', AString (ElementID event)),
             (''click.element_type'', AString (ElementType event)),
             (''click.element_text'', AString (ElementText event)),
             (''click.position_x'', AInt (CursorX event)),
             (''click.position_y'', AInt (CursorY event)),
             (''click.viewport_x'', AInt (ViewportX event)),
             (''click.viewport_y'', AInt (ViewportY event))] clickSpan
      in span_End clickSpan s)"

definition recordCursorPosition :: "TrackingEvent \<Rightarrow> Service \<Rightarrow> Service" where
  "recordCursorPosition event s =
     (let s = s\<lparr>cursorPositions := cursorPositions s @
                  [(word_of_int (CursorX event),
                    [(''coordinate'', AString ''x''), (''event_type'', AString ''mousemove'')])]\<rparr>
      in s\<lparr>cursorPositions := cursorPositions s @
                  [(word_of_int (CursorY event),
                    [(''coordinate'', AString ''y''), (''event_type'', AString ''mousemove'')])]\<rparr>)"

definition recordScrollEvent :: "TrackingEvent \<Rightarrow> Service \<Rightarrow> Service" where
  "recordScrollEvent event s =
     (let s = s\<lparr>cursorPositions := cursorPositions s @
                  [(word_of_int (ScrollX event),
                    [(''coordinate'', AString ''scroll_x''), (''event_type'', AString ''scroll'')])]\<rparr>
      in s\<lparr>cursorPositions := cursorPositions s @
                  [(word_of_int (ScrollY event),
                    [(''coordinate'', AString ''scroll_y''), (''event_type'', AString ''scroll'')])]\<rparr>)"

text \<open>
  The loop of \<open>recordCustomEvent\<close> over the entries of \<open>event.Custom\<close>: the type
  assertion \<open>value.(string)\<close> succeeds on a string only.
\<close>

fun customAttributes :: "(string \<times> custom_value) list \<Rightarrow> Span \<Rightarrow> Span" where
  "customAttributes [] sp = sp"
| "customAttributes ((key, VString str) # kvs) sp =
     customAttributes kvs (SetAttributes [(''custom.'' @ key, AString str)] sp)"
| "customAttributes ((key, _) # kvs) sp = customAttributes kvs sp"

definition customSpan :: "TrackingEvent \<Rightarrow> Span" where
  "customSpan event =
     (let customSpan = tracer_Start ''custom_event'';
          customSpan = SetAttributes
            [(''custom.element_id'', AString (ElementID event)),
             (''custom.session_id'', AString (SessionID event))] customSpan
      in customAttributes (Custom event) customSpan)"

definition recordCustomEvent :: "TrackingEvent \<Rightarrow> Service \<Rightarrow> Service" where
  "recordCustomEvent event s = span_End (customSpan event) s"

text \<open>
  \<open>ProcessTrackingEvent\<close> returns a Go \<open>error\<close>: \<open>None\<close> is \<open>nil\<close>. The span opened
  at the start is ended by the deferred call, after everything else.
\<close>

definition ProcessTrackingEvent ::
  "Clock \<Rightarrow> TrackingEvent \<Rightarrow> Service \<Rightarrow> string option \<times> Service" where
  "ProcessTrackingEvent clk event s =
     (let span = tracer_Start ''process_tracking_event'';
          span = SetAttributes
            [(''event.type'', AString (EventType event)),
             (''session.id'', AString (SessionID event)),
             (''cursor.x'', AInt (CursorX event)),
             (''cursor.y'', AInt (CursorY event))] span;
          s = updateSession clk event s;
          s = (if EventType event = ''click'' then recordClick event s
               else if EventType event = ''mousemove'' then recordCursorPosition event s
               else if EventType event = ''scroll'' then recordScrollEvent event s
               else if EventType event = ''custom'' then recordCustomEvent event s
               else slog_Warn ''Unknown event type'' [(''type'', AString (EventType event))] s);
          s = slog_Info ''Event processed''
                [(''event_type'', AString (EventType event)),
                 (''session_id'', AString (SessionID event)),
                 (''element_id'', AString (ElementID event)),
                 (''timestamp'', ATime (Timestamp event))] s
      in (None, span_End span s))"

definition TrackPageView :: "Service \<Rightarrow> Service" where
  "TrackPageView s =
     (let s = s\<lparr>pageViews := pageViews s + 1\<rparr>;
          span = tracer_Start ''page_view'';
          span = SetAttributes
            [(''page_views.total'', AInt (sint (pageViews s))),
             (''page.type'', AString ''homepage'')] span;
          s = span_End span s
      in slog_Info ''Page view recorded'' [(''total_views'', AInt (sint (pageViews s)))] s)"

definition RecordHTTPMetrics :: "string \<Rightarrow> string \<Rightarrow> int \<Rightarrow> duration \<Rightarrow> Service \<Rightarrow> Service" where
  "RecordHTTPMetrics method path statusCode d s =
     (let s = s\<lparr>httpRequests := httpRequests s @
                  [(1, [(''method'', AString method), (''path'', AString path),
                        (''status_code'', AInt statusCode)])]\<rparr>
      in s\<lparr>requestDuration := requestDuration s @
                  [(Seconds d, [(''method'', AString method), (''path'', AString path),
                                (''status_code'', AInt statusCode)])]\<rparr>)"

text \<open>
  \<open>GetHealthMetrics\<close> and \<open>GetClickRate\<close> only read the service. \<open>Uptime\<close> is kept
  as the duration that the source formats as a string.
\<close>

definition GetHealthMetrics :: "time \<Rightarrow> Service \<Rightarrow> HealthMetrics" where
  "GetHealthMetrics now s =
     (let activeUsers = (word_of_nat (card (dom (sessions s))) :: int64);
          uptime = time_Sub now (startTime s)
      in \<lparr>Uptime = uptime, TotalClicks = clickCounter s, PageViews = pageViews s,
          ActiveUsers = activeUsers, TotalSessions = sessionCounter s\<rparr>)"

definition GetClickRate :: "duration \<Rightarrow> Service \<Rightarrow> real" where
  "GetClickRate d s =
     (let clicks = clickCounter s;
          minutes = Minutes d
      in if minutes = 0 then 0 else real_of_int (sint clicks) / minutes)"

text \<open>
  \<open>CleanupOldSessions\<close>: the \<open>range\<close> loop visits the entries of the map in an order
  that Go leaves open; \<open>ids\<close> is that order. Deleting an absent key does nothing.
\<close>

fun cleanupLoop :: "time \<Rightarrow> duration \<Rightarrow> string list \<Rightarrow> (string \<rightharpoonup> SessionData) \<Rightarrow> (string \<rightharpoonup> SessionData)" where
  "cleanupLoop now maxAge [] m = m"
| "cleanupLoop now maxAge (sessionID # ids) m =
     (case m sessionID of
        None \<Rightarrow> cleanupLoop now maxAge ids m
      | Some session \<Rightarrow>
          if time_Sub now (LastActive session) > maxAge
          then cleanupLoop now maxAge ids (m(sessionID := None))
          else cleanupLoop now maxAge ids m)"

definition CleanupOldSessions :: "time \<Rightarrow> string list \<Rightarrow> duration \<Rightarrow> Service \<Rightarrow> Service" where
  "CleanupOldSessions now ids maxAge s = s\<lparr>sessions := cleanupLoop now maxAge ids (sessions s)\<rparr>"

section \<open>The handler of /api/track (internal/handlers/handler.go)\<close>

text \<open>
  A request as \<open>TrackEvent\<close> reads it: the method, the outcome of decoding the body
  with \<open>encoding/json\<close> (the error or the event), and the two headers it copies. The
  handler answers with \<open>http.Error\<close> (message and status code) or with the JSON object
  of a success, which the writer is taken to accept.
\<close>

record Request =
  Method :: string
  Body :: "string + TrackingEvent"
  Header_UserAgent :: string
  Referer :: string

datatype response =
    HttpError string nat
  | Json "attribute list"

record Handler =
  service :: Service
  handlerTracer :: "Span list"

definition handler_End :: "Span \<Rightarrow> Handler \<Rightarrow> Handler" where
  "handler_End sp h = h\<lparr>handlerTracer := handlerTracer h @ [sp]\<rparr>"

definition TrackEvent :: "Clock \<Rightarrow> Request \<Rightarrow> Handler \<Rightarrow> response \<times> Handler" where
  "TrackEvent clk r h =
     (let span = tracer_Start ''track_event_handler''
      in if Method r \<noteq> ''POST''
         then (let span = SetStatus CodeError ''method not allowed'' span
               in (HttpError ''Method not allowed'' 405, handler_End span h))
         else
           (case Body r of
              Inl err \<Rightarrow>
                (let span = RecordError err span;
                     span = SetStatus CodeError ''invalid JSON'' span;
                     h = h\<lparr>service := slog_Error ''Failed to decode tracking event''
                                          [(''error'', AString err)] (service h)\<rparr>
                 in (HttpError ''Invalid JSON'' 400, handler_End span h))
            | Inr event \<Rightarrow>
                if EventType event = ''''
                then (let span = SetStatus CodeError ''missing event type'' span
                      in (HttpError ''Event type is required'' 400, handler_End span h))
                else
                  (let event = (if IsZero (Timestamp event)
                                then event\<lparr>Timestamp := now_Timestamp clk\<rparr> else event);
                       event = event\<lparr>UserAgent := Header_UserAgent r\<rparr>;
                       event = (if PageURL event = ''''
                                then event\<lparr>PageURL := Referer r\<rparr> else event);
                       (err, svc) = ProcessTrackingEvent clk event (service h);
                       h = h\<lparr>service := svc\<rparr>
                   in case err of
                        Some e \<Rightarrow>
                          (let span = RecordError e span;
                               span = SetStatus CodeError ''event processing failed'' span;
                               h = h\<lparr>service := slog_Error ''Failed to process tracking event''
                                                    [(''error'', AString e),
                                                     (''event_type'', AString (EventType event))]
                                                    (service h)\<rparr>
                           in (HttpError ''Failed to process event'' 500, handler_End span h))
                      | None \<Rightarrow>
                          (let h = h\<lparr>service := slog_Info ''Tracking event processed''
                                                    [(''event_type'', AString (EventType event)),
                                                     (''cursor_x'', AInt (CursorX event)),
                                                     (''cursor_y'', AInt (CursorY event)),
                                                     (''element_id'', AString (ElementID event)),
                                                     (''session_id'', AString (SessionID event))]
                                                    (service h)\<rparr>;
                               span = SetAttributes
                                 [(''event.type'', AString (EventType event)),
                                  (''cursor.x'', AInt (CursorX event)),
                                  (''cursor.y'', AInt (CursorY event)),
                                  (''element.id'', AString (ElementID event)),
                                  (''element.type'', AString (ElementType event)),
                                  (''session.id'', AString (SessionID event))] span;
                               response =
                                 [(''status'', AString ''success''),
                                  (''timestamp'', ATime (now_response clk)),
                                  (''event_id'', AString (SessionID event @ ''_'' @ EventType event))];
                               span = SetStatus CodeOk ''event tracked successfully'' span
                           in (Json response, handler_End span h)))))"

section \<open>Runs of the service\<close>

text \<open>
  A sequence of submitted events, each with the clock readings taken while it is
  processed, applied to the service in order.
\<close>

fun ProcessEvents :: "(Clock \<times> TrackingEvent) list \<Rightarrow> Service \<Rightarrow> Service" where
  "ProcessEvents [] s = s"
| "ProcessEvents ((clk, event) # es) s = ProcessEvents es (snd (ProcessTrackingEvent clk event s))"

text \<open>
  The operations that reach the service: a request to /api/track, a direct call of
  \<open>ProcessTrackingEvent\<close>, \<open>TrackPageView\<close>, \<open>RecordHTTPMetrics\<close>,
  \<open>CleanupOldSessions\<close>, and the two queries \<open>GetHealthMetrics\<close> and
  \<open>GetClickRate\<close>, which return a value and write nothing.
\<close>

datatype operation =
    OpTrackEvent Clock Request
  | OpProcessTrackingEvent Clock TrackingEvent
  | OpTrackPageView
  | OpRecordHTTPMetrics string string int duration
  | OpCleanupOldSessions time "string list" duration
  | OpGetHealthMetrics time
  | OpGetClickRate duration

fun step :: "operation \<Rightarrow> Handler \<Rightarrow> Handler" where
  "step (OpTrackEvent clk r) h = snd (TrackEvent clk r h)"
| "step (OpProcessTrackingEvent clk event) h =
     h\<lparr>service := snd (ProcessTrackingEvent clk event (service h))\<rparr>"
| "step OpTrackPageView h = h\<lparr>service := TrackPageView (service h)\<rparr>"
| "step (OpRecordHTTPMetrics method path statusCode d) h =
     h\<lparr>service := RecordHTTPMetrics method path statusCode d (service h)\<rparr>"
| "step (OpCleanupOldSessions now ids maxAge) h =
     h\<lparr>service := CleanupOldSessions now ids maxAge (service h)\<rparr>"
| "step (OpGetHealthMetrics now) h = h"
| "step (OpGetClickRate d) h = h"

subsection \<open>Observations\<close>

text \<open>
  The click count stored for a session id (0 when no session with that id is resident),
  and the events of a sequence that are clicks of a given session.
\<close>

definition storedClickCount :: "Service \<Rightarrow> string \<Rightarrow> int64" where
  "storedClickCount s sid =
     (case sessions s sid of None \<Rightarrow> 0 | Some session \<Rightarrow> ClickCount session)"

definition isClickOf :: "string \<Rightarrow> Clock \<times> TrackingEvent \<Rightarrow> bool" where
  "isClickOf sid e = (SessionID (snd e) = sid \<and> EventType (snd e) = ''click'')"

subsection \<open>Concrete inputs\<close>

definition clock_1 :: Clock where
  "clock_1 = \<lparr>now_Timestamp = 1000, now_StartTime = 1001, now_LastActive = 1002,
              now_update = 1003, now_response = 1004\<rparr>"

text \<open>A clock that does not advance while one event is processed.\<close>

definition clock_at :: "time \<Rightarrow> Clock" where
  "clock_at t = \<lparr>now_Timestamp = t, now_StartTime = t, now_LastActive = t,
                 now_update = t, now_response = t\<rparr>"

definition event_1 :: TrackingEvent where
  "event_1 =
     \<lparr>EventType = ''click'', Timestamp = 0, CursorX = 10, CursorY = 20,
      ElementID = ''zone-1'', ElementType = ''div'', PageURL = '''', UserAgent = '''',
      SessionID = ''s1'', ViewportX = 800, ViewportY = 600, ScrollX = 0, ScrollY = 0,
      ElementText = ''Click Zone Alpha'', Custom = []\<rparr>"

definition event_custom :: TrackingEvent where
  "event_custom =
     event_1\<lparr>EventType := ''custom'',
             Custom := [(''plan'', VString ''pro''), (''seats'', VNumber 3),
                        (''trial'', VBool True), (''ref'', VNull), (''tag'', VString ''a'')]\<rparr>"

definition request_1 :: "TrackingEvent \<Rightarrow> Request" where
  "request_1 event =
     \<lparr>Method = ''POST'', Body = Inr event, Header_UserAgent = ''curl'',
      Referer = ''http://localhost/''\<rparr>"

text \<open>A custom event whose custom map has a string under the key element_id.\<close>

definition event_dup :: TrackingEvent where
  "event_dup = event_1\<lparr>EventType := ''custom'', Custom := [(''element_id'', VString ''dup'')]\<rparr>"

definition handler_1 :: Handler where
  "handler_1 = \<lparr>service = New 0, handlerTracer = []\<rparr>"

text \<open>Three events of session s1: a click, a scroll and a click.\<close>

definition events_1 :: "(Clock \<times> TrackingEvent) list" where
  "events_1 =
     [(clock_1, event_1), (clock_1, event_1\<lparr>EventType := ''scroll''\<rparr>), (clock_1, event_1)]"

text \<open>
  Two clicks of session s1 one hour apart, then a click of session s2 at 7000 seconds.
\<close>

definition service_2 :: Service where
  "service_2 =
     ProcessEvents
       [(clock_at 0, event_1), (clock_at 3600000000000, event_1),
        (clock_at 7000000000000, event_1\<lparr>SessionID := ''s2''\<rparr>)]
       (New 0)"

text \<open>A service whose click counter has reached the largest \<open>int64\<close>.\<close>

definition service_max :: Service where
  "service_max = (New 0)\<lparr>clickCounter := 9223372036854775807\<rparr>"

section \<open>Basic facts\<close>

lemma updateSession_eq:
  "updateSession clk event s =
     s\<lparr>sessions := (sessions s)(SessionID event \<mapsto>
          (let session = (case sessions s (SessionID event) of
                            None \<Rightarrow> newSession clk (SessionID event) | Some d \<Rightarrow> d)
           in session\<lparr>LastActive := now_update clk,
                      Events := Events session @ [event],
                      ClickCount := (if EventType event = ''click''
                                     then ClickCount session + 1 else ClickCount session)\<rparr>)),
       sessionCounter := (if sessions s (SessionID event) = None
                          then sessionCounter s + 1 else sessionCounter s)\<rparr>"
  by (simp add: updateSession_def Let_def split: option.split)

lemma ProcessTrackingEvent_nil: "fst (ProcessTrackingEvent clk event s) = None"
  by (simp add: ProcessTrackingEvent_def Let_def)

lemmas record_defs = recordClick_def recordCursorPosition_def recordScrollEvent_def
  recordCustomEvent_def slog_Warn_def slog_Info_def span_End_def

lemma sessions_ProcessTrackingEvent:
  "sessions (snd (ProcessTrackingEvent clk event s)) = sessions (updateSession clk event s)"
  by (simp add: ProcessTrackingEvent_def Let_def record_defs)

lemma counters_ProcessTrackingEvent:
  "clickCounter (snd (ProcessTrackingEvent clk event s)) =
     (if EventType event = ''click'' then clickCounter s + 1 else clickCounter s)"
  "pageViews (snd (ProcessTrackingEvent clk event s)) = pageViews s"
  "sessionCounter (snd (ProcessTrackingEvent clk event s)) =
     (if sessions s (SessionID event) = None then sessionCounter s + 1 else sessionCounter s)"
  by (simp_all add: ProcessTrackingEvent_def Let_def record_defs updateSession_eq)

lemma sessions_service_2:
  "sessions service_2 =
     [''s1'' \<mapsto> \<lparr>ID = ''s1'', StartTime = 0, LastActive = 3600000000000, ClickCount = 2,
                  Events = [event_1, event_1]\<rparr>,
      ''s2'' \<mapsto> \<lparr>ID = ''s2'', StartTime = 7000000000000, LastActive = 7000000000000,
                  ClickCount = 1, Events = [event_1\<lparr>SessionID := ''s2''\<rparr>]\<rparr>]"
  by (simp add: service_2_def sessions_ProcessTrackingEvent updateSession_eq newSession_def
      Let_def New_def clock_at_def event_1_def)

lemma counters_service_2:
  "clickCounter service_2 = 3" "pageViews service_2 = 0" "sessionCounter service_2 = 2"
  by (simp_all add: service_2_def counters_ProcessTrackingEvent sessions_ProcessTrackingEvent
      updateSession_eq New_def event_1_def)

section \<open>Validation of submitted events\<close>

text \<open>
  C1. A POST request to /api/track whose body decodes to an event with an empty
  \<open>event_type\<close> is answered with the validation failure (status 400, "Event type is
  required") and leaves the service as it was: sessions, counters, metric samples, spans
  and log of the service are all unchanged. A request whose event has a non-empty
  \<open>event_type\<close> is answered with the success object.
\<close>

theorem TrackEvent_validation:
  assumes "Method r = ''POST''" and "Body r = Inr event"
  shows "(EventType event = '''' \<longrightarrow>
            fst (TrackEvent clk r h) = HttpError ''Event type is required'' 400 \<and>
            service (snd (TrackEvent clk r h)) = service h) \<and>
         (EventType event \<noteq> '''' \<longrightarrow>
            fst (TrackEvent clk r h) =
              Json [(''status'', AString ''success''),
                    (''timestamp'', ATime (now_response clk)),
                    (''event_id'', AString (SessionID event @ ''_'' @ EventType event))])"
  using assms
  by (simp add: TrackEvent_def Let_def handler_End_def ProcessTrackingEvent_def split: prod.split)

theorem TrackEvent_validation_witness:
  "fst (TrackEvent clock_1 (request_1 (event_1\<lparr>EventType := ''''\<rparr>)) handler_1) =
     HttpError ''Event type is required'' 400 \<and>
   service (snd (TrackEvent clock_1 (request_1 (event_1\<lparr>EventType := ''''\<rparr>)) handler_1)) = New 0 \<and>
   fst (TrackEvent clock_1 (request_1 event_1) handler_1) =
     Json [(''status'', AString ''success''), (''timestamp'', ATime 1004),
           (''event_id'', AString ''s1_click'')]"
  using TrackEvent_validation
          [of "request_1 (event_1\<lparr>EventType := ''''\<rparr>)" "event_1\<lparr>EventType := ''''\<rparr>" clock_1 handler_1]
        TrackEvent_validation [of "request_1 event_1" event_1 clock_1 handler_1]
  by (simp add: request_1_def event_1_def handler_1_def clock_1_def)

text \<open>
  C2. \<open>ProcessTrackingEvent\<close> returns \<open>nil\<close> for every event. Called directly with
  an event whose \<open>event_type\<close> is empty it still returns \<open>nil\<close> and still appends the
  event to the sequence of its session, which it creates when the id is new.
\<close>

theorem ProcessTrackingEvent_never_fails:
  "fst (ProcessTrackingEvent clk event s) = None \<and>
   fst (ProcessTrackingEvent clk (event\<lparr>EventType := ''''\<rparr>) s) = None \<and>
   map_option Events
     (sessions (snd (ProcessTrackingEvent clk (event\<lparr>EventType := ''''\<rparr>) s)) (SessionID event)) =
     Some ((case sessions s (SessionID event) of None \<Rightarrow> [] | Some d \<Rightarrow> Events d)
           @ [event\<lparr>EventType := ''''\<rparr>])"
  by (simp add: ProcessTrackingEvent_nil sessions_ProcessTrackingEvent updateSession_eq
      newSession_def Let_def split: option.split)

section \<open>Sessions\<close>

text \<open>
  C7 (amended). For an event whose session id is not resident, \<open>updateSession\<close> builds a
  session with the event's id, \<open>StartTime\<close> and \<open>LastActive\<close> each set from its own
  reading of the clock, click count 0 and no events, and adds one to the counter of
  sessions; for an event of a resident session the counter is untouched. In both cases it
  then sets \<open>LastActive\<close> to a further reading of the clock, appends the event, and adds
  one to the click count exactly when the event is a click.
\<close>

theorem updateSession_upsert:
  "(sessions s (SessionID event) = None \<longrightarrow>
      ID (newSession clk (SessionID event)) = SessionID event \<and>
      StartTime (newSession clk (SessionID event)) = now_StartTime clk \<and>
      LastActive (newSession clk (SessionID event)) = now_LastActive clk \<and>
      ClickCount (newSession clk (SessionID event)) = 0 \<and>
      Events (newSession clk (SessionID event)) = [] \<and>
      updateSession clk event s =
        s\<lparr>sessions := (sessions s)(SessionID event \<mapsto>
             (newSession clk (SessionID event))
               \<lparr>LastActive := now_update clk,
                Events := [event],
                ClickCount := (if EventType event = ''click'' then 1 else 0)\<rparr>),
          sessionCounter := sessionCounter s + 1\<rparr>) \<and>
   (\<forall>session. sessions s (SessionID event) = Some session \<longrightarrow>
      updateSession clk event s =
        s\<lparr>sessions := (sessions s)(SessionID event \<mapsto>
             session\<lparr>LastActive := now_update clk,
                     Events := Events session @ [event],
                     ClickCount := (if EventType event = ''click''
                                    then ClickCount session + 1 else ClickCount session)\<rparr>)\<rparr>)"
  by (simp add: updateSession_eq newSession_def Let_def)

theorem updateSession_upsert_witness:
  "map_option (\<lambda>d. (ID d, StartTime d, LastActive d, ClickCount d, Events d))
     (sessions (updateSession clock_1 event_1 (New 0)) ''s1'') =
     Some (''s1'', 1001, 1003, 1, [event_1]) \<and>
   sessionCounter (updateSession clock_1 event_1 (New 0)) = 1 \<and>
   map_option (\<lambda>d. (ID d, StartTime d, LastActive d, ClickCount d, Events d))
     (sessions (updateSession (clock_at 2000) (event_1\<lparr>EventType := ''scroll''\<rparr>)
        (updateSession clock_1 event_1 (New 0))) ''s1'') =
     Some (''s1'', 1001, 2000, 1, [event_1, event_1\<lparr>EventType := ''scroll''\<rparr>]) \<and>
   sessionCounter (updateSession (clock_at 2000) (event_1\<lparr>EventType := ''scroll''\<rparr>)
        (updateSession clock_1 event_1 (New 0))) = 1"
proof -
  let ?d1 = "(newSession clock_1 (SessionID event_1))
               \<lparr>LastActive := now_update clock_1,
                Events := [event_1],
                ClickCount := (if EventType event_1 = ''click'' then 1 else 0)\<rparr>"
  let ?e2 = "event_1\<lparr>EventType := ''scroll''\<rparr>"
  have new: "sessions (New 0) (SessionID event_1) = None"
    by (simp add: New_def)
  have u1: "updateSession clock_1 event_1 (New 0) =
        (New 0)\<lparr>sessions := (sessions (New 0))(SessionID event_1 \<mapsto> ?d1),
                sessionCounter := sessionCounter (New 0) + 1\<rparr>"
    using updateSession_upsert [of "New 0" event_1 clock_1] new by blast
  let ?s1 = "updateSession clock_1 event_1 (New 0)"
  have old: "sessions ?s1 (SessionID ?e2) = Some ?d1"
    by (simp add: u1)
  have u2: "updateSession (clock_at 2000) ?e2 ?s1 =
        ?s1\<lparr>sessions := (sessions ?s1)(SessionID ?e2 \<mapsto>
             ?d1\<lparr>LastActive := now_update (clock_at 2000),
                  Events := Events ?d1 @ [?e2],
                  ClickCount := (if EventType ?e2 = ''click''
                                 then ClickCount ?d1 + 1 else ClickCount ?d1)\<rparr>)\<rparr>"
    using updateSession_upsert [of ?s1 ?e2 "clock_at 2000"] old by blast
  show ?thesis
    unfolding u2 unfolding u1
    by (simp add: newSession_def New_def clock_1_def clock_at_def event_1_def)
qed

theorem updateSession_upsert_counterexample:
  "sessions (New 0) ''s1'' = None \<and>
   StartTime (newSession clock_1 ''s1'') = 1001 \<and>
   LastActive (newSession clock_1 ''s1'') = 1002 \<and>
   map_option StartTime (sessions (updateSession clock_1 event_1 (New 0)) ''s1'') = Some 1001 \<and>
   map_option LastActive (sessions (updateSession clock_1 event_1 (New 0)) ''s1'') = Some 1003"
  by (simp add: updateSession_eq newSession_def New_def clock_1_def event_1_def)

text \<open>Click counts along a run.\<close>

lemma storedClickCount_step:
  "storedClickCount (snd (ProcessTrackingEvent clk event s)) sid =
     storedClickCount s sid + (if isClickOf sid (clk, event) then 1 else 0)"
  by (simp add: storedClickCount_def isClickOf_def sessions_ProcessTrackingEvent updateSession_eq
      newSession_def Let_def split: option.split)

lemma storedClickCount_ProcessEvents:
  "storedClickCount (ProcessEvents es s) sid =
     storedClickCount s sid + word_of_nat (length (filter (isClickOf sid) es))"
proof (induction es arbitrary: s)
  case Nil
  show ?case by simp
next
  case (Cons a es)
  obtain clk event where a: "a = (clk, event)" by (cases a)
  show ?case
    unfolding a ProcessEvents.simps Cons.IH storedClickCount_step
    by simp
qed

lemma resident_step:
  "(sessions (snd (ProcessTrackingEvent clk event s)) sid = None) =
     (sessions s sid = None \<and> SessionID event \<noteq> sid)"
  by (simp add: sessions_ProcessTrackingEvent updateSession_eq)

lemma resident_ProcessEvents:
  "(sessions (ProcessEvents es s) sid = None) =
     (sessions s sid = None \<and> (\<forall>e \<in> set es. SessionID (snd e) \<noteq> sid))"
proof (induction es arbitrary: s)
  case Nil
  show ?case by simp
next
  case (Cons a es)
  obtain clk event where a: "a = (clk, event)" by (cases a)
  show ?case
    unfolding a ProcessEvents.simps Cons.IH resident_step
    by auto
qed

lemma sint_word_of_nat_64:
  assumes "n < 2 ^ 63"
  shows "sint (word_of_nat n :: int64) = int n"
proof -
  have "int n < 2 ^ 63"
    using assms by (metis of_nat_less_iff of_nat_numeral of_nat_power)
  then have "signed_take_bit 63 (int n) = int n"
    by (intro signed_take_bit_int_eq_self) simp_all
  then show ?thesis
    by (simp add: signed_of_nat)
qed

text \<open>
  C3. Starting from a service in which the session id is not resident, after every
  non-empty prefix of a sequence of events that all carry this id, the stored click count
  of the session is the number of clicks in the prefix: as an \<open>int64\<close> always, and as
  an integer for every sequence of fewer than \<open>2 ^ 63\<close> events (a Go slice, and so the
  session's own event sequence, holds at most \<open>2 ^ 63 - 1\<close>).
\<close>

theorem click_count_of_session:
  assumes "sessions s sid = None"
    and "\<forall>e \<in> set es. SessionID (snd e) = sid"
    and "0 < n" and "n \<le> length es"
  shows "map_option ClickCount (sessions (ProcessEvents (take n es) s) sid) =
           Some (word_of_nat (length (filter (\<lambda>e. EventType (snd e) = ''click'') (take n es)))) \<and>
         (length es < 2 ^ 63 \<longrightarrow>
            map_option (\<lambda>d. sint (ClickCount d)) (sessions (ProcessEvents (take n es) s) sid) =
              Some (int (length (filter (\<lambda>e. EventType (snd e) = ''click'') (take n es)))))"
proof -
  let ?es = "take n es"
  let ?s = "ProcessEvents ?es s"
  let ?k = "length (filter (\<lambda>e. EventType (snd e) = ''click'') ?es)"
  have all: "\<forall>e \<in> set ?es. SessionID (snd e) = sid"
    using assms(2) by (meson in_set_takeD)
  have "?es \<noteq> []"
    using assms(3,4) by auto
  then obtain e where "e \<in> set ?es" by (cases ?es) auto
  with all have "\<exists>e \<in> set ?es. SessionID (snd e) = sid" by blast
  then have "sessions ?s sid \<noteq> None"
    by (simp add: resident_ProcessEvents)
  then obtain d where d: "sessions ?s sid = Some d" by blast
  have "filter (isClickOf sid) ?es = filter (\<lambda>e. EventType (snd e) = ''click'') ?es"
    using all by (intro filter_cong) (auto simp: isClickOf_def)
  then have "storedClickCount ?s sid = word_of_nat ?k"
    using assms(1) by (simp add: storedClickCount_ProcessEvents) (simp add: storedClickCount_def)
  then have cc: "ClickCount d = word_of_nat ?k"
    using d by (simp add: storedClickCount_def)
  have "?k \<le> length ?es"
    by (rule length_filter_le)
  then have "?k \<le> length es"
    by simp
  then have "length es < 2 ^ 63 \<Longrightarrow> sint (ClickCount d) = int ?k"
    unfolding cc by (intro sint_word_of_nat_64) simp
  with cc d show ?thesis by simp
qed

theorem click_count_of_session_witness:
  "map_option ClickCount (sessions (ProcessEvents (take 1 events_1) (New 0)) ''s1'') = Some 1 \<and>
   map_option ClickCount (sessions (ProcessEvents (take 2 events_1) (New 0)) ''s1'') = Some 1 \<and>
   map_option ClickCount (sessions (ProcessEvents (take 3 events_1) (New 0)) ''s1'') = Some 2 \<and>
   map_option (\<lambda>d. sint (ClickCount d)) (sessions (ProcessEvents (take 3 events_1) (New 0)) ''s1'') = Some 2"
proof -
  have new: "sessions (New 0) ''s1'' = None"
    by (simp add: New_def)
  have all: "\<forall>e \<in> set events_1. SessionID (snd e) = ''s1''"
    by (simp add: events_1_def event_1_def)
  have len: "length events_1 = 3" "length events_1 < 2 ^ 63"
    by (simp_all add: events_1_def)
  have t: "take 3 events_1 = events_1"
    by (simp add: events_1_def)
  show ?thesis
    using click_count_of_session [OF new all, of 1]
      click_count_of_session [OF new all, of 2]
      click_count_of_session [OF new all, of 3] len
    by (simp add: t) (simp add: events_1_def event_1_def)
qed

section \<open>Eviction\<close>

lemma cleanupLoop_eq:
  "cleanupLoop now maxAge ids m sid =
     (if sid \<in> set ids
      then (case m sid of
              None \<Rightarrow> None
            | Some session \<Rightarrow>
                if time_Sub now (LastActive session) > maxAge then None else Some session)
      else m sid)"
  by (induction ids arbitrary: m) (auto split: option.split)

lemma time_Sub_greater:
  "minDuration \<le> maxAge \<Longrightarrow> maxAge < maxDuration \<Longrightarrow>
     (time_Sub t u > maxAge) = (t - u > maxAge)"
  by (auto simp: time_Sub_def Let_def)

text \<open>
  C4. Let \<open>ids\<close> be the resident session ids in the order in which the loop visits
  them. After \<open>CleanupOldSessions\<close> a session id is resident exactly when it was resident
  before and \<open>now.Sub(LastActive)\<close> is not greater than \<open>maxAge\<close>, and it then holds the
  very same record; nothing but the session map changes; and when no resident session is
  stale the service is left as it was. For every \<open>maxAge\<close> below the largest Duration,
  \<open>now.Sub(LastActive) > maxAge\<close> is \<open>now - LastActive > maxAge\<close>.
\<close>

theorem CleanupOldSessions_evicts:
  assumes "set ids = dom (sessions s)"
  shows "(\<forall>sid. sessions (CleanupOldSessions now ids maxAge s) sid =
            (case sessions s sid of
               None \<Rightarrow> None
             | Some session \<Rightarrow>
                 if time_Sub now (LastActive session) > maxAge then None else Some session)) \<and>
         CleanupOldSessions now ids maxAge s =
           s\<lparr>sessions := sessions (CleanupOldSessions now ids maxAge s)\<rparr> \<and>
         ((\<forall>sid session. sessions s sid = Some session \<longrightarrow>
              \<not> time_Sub now (LastActive session) > maxAge) \<longrightarrow>
            CleanupOldSessions now ids maxAge s = s) \<and>
         (minDuration \<le> maxAge \<and> maxAge < maxDuration \<longrightarrow>
            dom (sessions (CleanupOldSessions now ids maxAge s)) =
              {sid \<in> dom (sessions s). \<not> now - LastActive (the (sessions s sid)) > maxAge})"
proof -
  have eq: "sessions (CleanupOldSessions now ids maxAge s) sid =
            (case sessions s sid of
               None \<Rightarrow> None
             | Some session \<Rightarrow>
                 if time_Sub now (LastActive session) > maxAge then None else Some session)" for sid
    using assms by (auto simp: CleanupOldSessions_def cleanupLoop_eq split: option.split)
  have frame: "CleanupOldSessions now ids maxAge s =
           s\<lparr>sessions := sessions (CleanupOldSessions now ids maxAge s)\<rparr>"
    by (simp add: CleanupOldSessions_def)
  have noop: "CleanupOldSessions now ids maxAge s = s"
    if "\<forall>sid session. sessions s sid = Some session \<longrightarrow>
              \<not> time_Sub now (LastActive session) > maxAge"
  proof -
    have "sessions (CleanupOldSessions now ids maxAge s) = sessions s"
      using that by (intro ext) (auto simp: eq split: option.split)
    with frame show ?thesis by simp
  qed
  have domeq: "dom (sessions (CleanupOldSessions now ids maxAge s)) =
              {sid \<in> dom (sessions s). \<not> now - LastActive (the (sessions s sid)) > maxAge}"
    if "minDuration \<le> maxAge \<and> maxAge < maxDuration"
    using that by (auto simp: eq time_Sub_greater split: option.splits if_splits)
  from eq frame noop domeq show ?thesis by blast
qed

theorem CleanupOldSessions_evicts_witness:
  "sessions service_2 ''s1'' \<noteq> None \<and>
   sessions (CleanupOldSessions 7200000000000 [''s2'', ''s1''] 1800000000000 service_2) ''s1'' = None \<and>
   sessions (CleanupOldSessions 7200000000000 [''s2'', ''s1''] 1800000000000 service_2) ''s2'' =
     sessions service_2 ''s2'' \<and>
   dom (sessions (CleanupOldSessions 7200000000000 [''s2'', ''s1''] 1800000000000 service_2)) = {''s2''} \<and>
   CleanupOldSessions 7200000000000 [''s2'', ''s1''] 3600000000000 service_2 = service_2"
proof -
  have ids: "set [''s2'', ''s1''] = dom (sessions service_2)"
    by (auto simp: sessions_service_2)
  note ev = CleanupOldSessions_evicts [OF ids, of 7200000000000]
  have fresh: "\<forall>sid session. sessions service_2 sid = Some session \<longrightarrow>
      \<not> time_Sub 7200000000000 (LastActive session) > 3600000000000"
    by (auto simp: sessions_service_2 time_Sub_def maxDuration_def minDuration_def split: if_splits)
  have range: "minDuration \<le> 1800000000000 \<and> 1800000000000 < maxDuration"
    by (simp add: maxDuration_def minDuration_def)
  have a: "sessions (CleanupOldSessions 7200000000000 [''s2'', ''s1''] 1800000000000 service_2) sid =
            (case sessions service_2 sid of
               None \<Rightarrow> None
             | Some session \<Rightarrow>
                 if time_Sub 7200000000000 (LastActive session) > 1800000000000 then None else Some session)" for sid
    using ev [of 1800000000000] by blast
  have b: "CleanupOldSessions 7200000000000 [''s2'', ''s1''] 3600000000000 service_2 = service_2"
    using ev [of 3600000000000] fresh by blast
  have c: "dom (sessions (CleanupOldSessions 7200000000000 [''s2'', ''s1''] 1800000000000 service_2)) =
      {sid \<in> dom (sessions service_2). \<not> 7200000000000 - LastActive (the (sessions service_2 sid)) > 1800000000000}"
    using ev [of 1800000000000] range by blast
  have d: "{sid \<in> dom (sessions service_2). \<not> 7200000000000 - LastActive (the (sessions service_2 sid)) > 1800000000000} = {''s2''}"
    by (auto simp: sessions_service_2 split: if_splits)
  show ?thesis
    unfolding a b c d
    by (simp add: sessions_service_2 time_Sub_def maxDuration_def minDuration_def)
qed

text \<open>
  C8. \<open>CleanupOldSessions\<close> leaves the three counters as they were, whatever it removes.
\<close>

theorem CleanupOldSessions_counters:
  "clickCounter (CleanupOldSessions now ids maxAge s) = clickCounter s \<and>
   pageViews (CleanupOldSessions now ids maxAge s) = pageViews s \<and>
   sessionCounter (CleanupOldSessions now ids maxAge s) = sessionCounter s"
  by (simp add: CleanupOldSessions_def)

text \<open>
  Scenario C of the specification: session s1 is removed by an eviction with a threshold
  of 30 minutes, and the counters still read three clicks and two sessions.
\<close>

theorem CleanupOldSessions_counters_witness:
  "sessions (CleanupOldSessions 7200000000000 [''s1'', ''s2''] 1800000000000 service_2) ''s1'' = None \<and>
   clickCounter (CleanupOldSessions 7200000000000 [''s1'', ''s2''] 1800000000000 service_2) = 3 \<and>
   pageViews (CleanupOldSessions 7200000000000 [''s1'', ''s2''] 1800000000000 service_2) = 0 \<and>
   sessionCounter (CleanupOldSessions 7200000000000 [''s1'', ''s2''] 1800000000000 service_2) = 2"
  using CleanupOldSessions_counters [of 7200000000000 "[''s1'', ''s2'']" 1800000000000 service_2]
  by (simp add: counters_service_2)
    (simp add: CleanupOldSessions_def sessions_service_2 time_Sub_def maxDuration_def minDuration_def)

section \<open>Counters and the click rate\<close>

lemma Minutes_eq: "Minutes d = real_of_int d / 60000000000"
proof -
  have "d = d sdiv Minute * Minute + d smod Minute"
    by (simp add: sdiv_mult_smod_eq)
  then have "real_of_int d =
      real_of_int (d sdiv Minute) * 60000000000 + real_of_int (d smod Minute)"
    by (metis Minute_def of_int_add of_int_mult of_int_numeral)
  then show ?thesis
    by (simp add: Minutes_def field_simps)
qed

text \<open>
  C5. \<open>GetClickRate\<close> returns 0 for the zero duration, and for every positive duration
  the click counter divided by the duration in minutes, which is the number of nanoseconds
  divided by \<open>6 * 10 ^ 10\<close>. The result is a number in both cases, never an error. (The
  arithmetic of \<open>float64\<close> is taken as real arithmetic.)
\<close>

theorem GetClickRate_value:
  "GetClickRate 0 s = 0 \<and>
   (0 < d \<longrightarrow>
      Minutes d = real_of_int d / 60000000000 \<and>
      GetClickRate d s = real_of_int (sint (clickCounter s)) / Minutes d)"
  by (simp add: GetClickRate_def Let_def Minutes_eq)

theorem GetClickRate_value_witness:
  "GetClickRate 0 service_2 = 0 \<and>
   Minutes 120000000000 = 2 \<and>
   GetClickRate 120000000000 service_2 = 3 / 2"
  using GetClickRate_value [of service_2 120000000000]
  by (simp add: counters_service_2)

lemma counters_TrackEvent:
  "clickCounter (service (snd (TrackEvent clk r h))) = clickCounter (service h) \<or>
   clickCounter (service (snd (TrackEvent clk r h))) = clickCounter (service h) + 1"
  "pageViews (service (snd (TrackEvent clk r h))) = pageViews (service h)"
  "sessionCounter (service (snd (TrackEvent clk r h))) = sessionCounter (service h) \<or>
   sessionCounter (service (snd (TrackEvent clk r h))) = sessionCounter (service h) + 1"
  by (simp_all add: TrackEvent_def Let_def handler_End_def case_prod_beta
      ProcessTrackingEvent_nil counters_ProcessTrackingEvent slog_Info_def slog_Error_def
      split: sum.split)

lemma counters_step:
  "(clickCounter (service (step op h)) = clickCounter (service h) \<or>
    clickCounter (service (step op h)) = clickCounter (service h) + 1) \<and>
   (pageViews (service (step op h)) = pageViews (service h) \<or>
    pageViews (service (step op h)) = pageViews (service h) + 1) \<and>
   (sessionCounter (service (step op h)) = sessionCounter (service h) \<or>
    sessionCounter (service (step op h)) = sessionCounter (service h) + 1)"
proof (cases op)
  case (OpTrackEvent clk r)
  show ?thesis
    using counters_TrackEvent [of clk r h] unfolding OpTrackEvent step.simps
    by simp
qed (simp_all add: counters_ProcessTrackingEvent TrackPageView_def Let_def record_defs
      RecordHTTPMetrics_def CleanupOldSessions_def)

lemma sint_plus_one:
  fixes c :: int64
  assumes "sint c < 2 ^ 63 - 1"
  shows "sint (c + 1) = sint c + 1"
proof -
  have "- (2 ^ 63) \<le> sint c"
    using sint_ge [of c] by simp
  then have "signed_take_bit 63 (sint c + 1) = sint c + 1"
    using assms by (intro signed_take_bit_int_eq_self) simp_all
  then show ?thesis
    by (simp add: sint_word_ariths)
qed

lemma sint_mono_step:
  fixes c c' :: int64
  assumes "c' = c \<or> c' = c + 1" and "sint c < 2 ^ 63 - 1"
  shows "sint c \<le> sint c'"
  using assms sint_plus_one [of c] by auto

text \<open>
  C6 (amended). Every operation leaves each of the three counters as it was or adds
  exactly one to it; no operation subtracts from a counter or stores another value in it.
  So a counter that is below the largest \<open>int64\<close>, \<open>2 ^ 63 - 1\<close>, does not decrease.
\<close>

theorem counters_monotone:
  "(clickCounter (service (step op h)) = clickCounter (service h) \<or>
    clickCounter (service (step op h)) = clickCounter (service h) + 1) \<and>
   (pageViews (service (step op h)) = pageViews (service h) \<or>
    pageViews (service (step op h)) = pageViews (service h) + 1) \<and>
   (sessionCounter (service (step op h)) = sessionCounter (service h) \<or>
    sessionCounter (service (step op h)) = sessionCounter (service h) + 1) \<and>
   (sint (clickCounter (service h)) < 2 ^ 63 - 1 \<longrightarrow>
      sint (clickCounter (service h)) \<le> sint (clickCounter (service (step op h)))) \<and>
   (sint (pageViews (service h)) < 2 ^ 63 - 1 \<longrightarrow>
      sint (pageViews (service h)) \<le> sint (pageViews (service (step op h)))) \<and>
   (sint (sessionCounter (service h)) < 2 ^ 63 - 1 \<longrightarrow>
      sint (sessionCounter (service h)) \<le> sint (sessionCounter (service (step op h))))"
  using counters_step [of op h] sint_mono_step by blast

theorem counters_monotone_witness:
  "sint (clickCounter (service handler_1)) = 0 \<and>
   sint (clickCounter (service (step (OpProcessTrackingEvent clock_1 event_1) handler_1))) = 1 \<and>
   sint (pageViews (service (step OpTrackPageView handler_1))) = 1 \<and>
   sint (sessionCounter (service (step (OpTrackEvent clock_1 (request_1 event_1)) handler_1))) = 1 \<and>
   sint (clickCounter (service handler_1)) \<le>
     sint (clickCounter (service (step (OpProcessTrackingEvent clock_1 event_1) handler_1))) \<and>
   sint (pageViews (service handler_1)) \<le> sint (pageViews (service (step OpTrackPageView handler_1))) \<and>
   sint (sessionCounter (service handler_1)) \<le>
     sint (sessionCounter (service (step (OpTrackEvent clock_1 (request_1 event_1)) handler_1)))"
proof -
  have z: "sint (clickCounter (service handler_1)) < 2 ^ 63 - 1"
    "sint (pageViews (service handler_1)) < 2 ^ 63 - 1"
    "sint (sessionCounter (service handler_1)) < 2 ^ 63 - 1"
    by (simp_all add: handler_1_def New_def)
  have a: "sint (clickCounter (service handler_1)) \<le>
     sint (clickCounter (service (step (OpProcessTrackingEvent clock_1 event_1) handler_1)))"
    using counters_monotone [of "OpProcessTrackingEvent clock_1 event_1" handler_1] z by blast
  have b: "sint (pageViews (service handler_1)) \<le> sint (pageViews (service (step OpTrackPageView handler_1)))"
    using counters_monotone [of OpTrackPageView handler_1] z by blast
  have c: "sint (sessionCounter (service handler_1)) \<le>
     sint (sessionCounter (service (step (OpTrackEvent clock_1 (request_1 event_1)) handler_1)))"
    using counters_monotone [of "OpTrackEvent clock_1 (request_1 event_1)" handler_1] z by blast
  have v: "sint (clickCounter (service handler_1)) = 0"
    "sint (clickCounter (service (step (OpProcessTrackingEvent clock_1 event_1) handler_1))) = 1"
    "sint (pageViews (service (step OpTrackPageView handler_1))) = 1"
    "sint (sessionCounter (service (step (OpTrackEvent clock_1 (request_1 event_1)) handler_1))) = 1"
    by (simp_all add: handler_1_def New_def counters_ProcessTrackingEvent TrackPageView_def
        Let_def record_defs event_1_def TrackEvent_def request_1_def handler_End_def
        case_prod_beta ProcessTrackingEvent_nil)
  from a b c v show ?thesis by blast
qed

theorem counters_monotone_counterexample:
  "sint (clickCounter service_max) = 9223372036854775807 \<and>
   sint (clickCounter (snd (ProcessTrackingEvent clock_1 event_1 service_max))) = - 9223372036854775808 \<and>
   sint (clickCounter (service (step (OpProcessTrackingEvent clock_1 event_1)
     \<lparr>service = service_max, handlerTracer = []\<rparr>))) < sint (clickCounter service_max)"
  by (simp add: counters_ProcessTrackingEvent service_max_def New_def event_1_def)

section \<open>Dispatch on the event type\<close>

text \<open>
  C9 (amended). For an event whose \<open>event_type\<close> is not empty and is none of click,
  mousemove, scroll and custom, \<open>ProcessTrackingEvent\<close> returns \<open>nil\<close>; the service
  afterwards is the one \<open>updateSession\<close> leaves, with the warning "Unknown event type"
  and the record "Event processed" added to the log and the span of the call ended. The
  event is appended to its session; the counters of clicks and page views and all metric
  instruments are unchanged; the counter of sessions grows by one exactly when the
  session id was not resident.
\<close>

theorem unknown_event_type:
  assumes "EventType event \<noteq> ''''"
    and "EventType event \<notin> {''click'', ''mousemove'', ''scroll'', ''custom''}"
  shows "fst (ProcessTrackingEvent clk event s) = None \<and>
         snd (ProcessTrackingEvent clk event s) =
           (updateSession clk event s)
             \<lparr>slog := slog s @
                [\<lparr>Level = Warn, Msg = ''Unknown event type'',
                  Args = [(''type'', AString (EventType event))]\<rparr>,
                 \<lparr>Level = Info, Msg = ''Event processed'',
                  Args = [(''event_type'', AString (EventType event)),
                          (''session_id'', AString (SessionID event)),
                          (''element_id'', AString (ElementID event)),
                          (''timestamp'', ATime (Timestamp event))]\<rparr>],
              tracer := tracer s @
                [SetAttributes [(''event.type'', AString (EventType event)),
                                (''session.id'', AString (SessionID event)),
                                (''cursor.x'', AInt (CursorX event)),
                                (''cursor.y'', AInt (CursorY event))]
                   (tracer_Start ''process_tracking_event'')]\<rparr> \<and>
         map_option Events (sessions (snd (ProcessTrackingEvent clk event s)) (SessionID event)) =
           Some ((case sessions s (SessionID event) of None \<Rightarrow> [] | Some d \<Rightarrow> Events d)
                 @ [event]) \<and>
         clickCounter (snd (ProcessTrackingEvent clk event s)) = clickCounter s \<and>
         pageViews (snd (ProcessTrackingEvent clk event s)) = pageViews s \<and>
         sessionCounter (snd (ProcessTrackingEvent clk event s)) =
           (if sessions s (SessionID event) = None
            then sessionCounter s + 1 else sessionCounter s) \<and>
         clickRate (snd (ProcessTrackingEvent clk event s)) = clickRate s \<and>
         cursorPositions (snd (ProcessTrackingEvent clk event s)) = cursorPositions s \<and>
         requestDuration (snd (ProcessTrackingEvent clk event s)) = requestDuration s \<and>
         activeUsers (snd (ProcessTrackingEvent clk event s)) = activeUsers s \<and>
         httpRequests (snd (ProcessTrackingEvent clk event s)) = httpRequests s"
  using assms
  by (simp add: ProcessTrackingEvent_def Let_def record_defs updateSession_eq newSession_def
      split: option.split)

theorem unknown_event_type_witness:
  "fst (ProcessTrackingEvent clock_1 (event_1\<lparr>EventType := ''hover''\<rparr>) service_2) = None \<and>
   map_option Events
     (sessions (snd (ProcessTrackingEvent clock_1 (event_1\<lparr>EventType := ''hover''\<rparr>) service_2)) ''s1'') =
     Some [event_1, event_1, event_1\<lparr>EventType := ''hover''\<rparr>] \<and>
   clickCounter (snd (ProcessTrackingEvent clock_1 (event_1\<lparr>EventType := ''hover''\<rparr>) service_2)) = 3 \<and>
   sessionCounter (snd (ProcessTrackingEvent clock_1 (event_1\<lparr>EventType := ''hover''\<rparr>) service_2)) = 2 \<and>
   clickRate (snd (ProcessTrackingEvent clock_1 (event_1\<lparr>EventType := ''hover''\<rparr>) service_2)) =
     clickRate service_2 \<and>
   cursorPositions (snd (ProcessTrackingEvent clock_1 (event_1\<lparr>EventType := ''hover''\<rparr>) service_2)) =
     cursorPositions service_2"
proof -
  have t: "EventType (event_1\<lparr>EventType := ''hover''\<rparr>) \<noteq> ''''"
    "EventType (event_1\<lparr>EventType := ''hover''\<rparr>) \<notin> {''click'', ''mousemove'', ''scroll'', ''custom''}"
    by simp_all
  have sid: "SessionID (event_1\<lparr>EventType := ''hover''\<rparr>) = ''s1''"
    by (simp add: event_1_def)
  note u = unknown_event_type [OF t, of clock_1 service_2, unfolded sid]
  note rest = u [THEN conjunct2, THEN conjunct2]
  have a: "fst (ProcessTrackingEvent clock_1 (event_1\<lparr>EventType := ''hover''\<rparr>) service_2) = None"
    by (rule u [THEN conjunct1])
  have b: "map_option Events
     (sessions (snd (ProcessTrackingEvent clock_1 (event_1\<lparr>EventType := ''hover''\<rparr>) service_2)) ''s1'') =
     Some ((case sessions service_2 ''s1'' of None \<Rightarrow> [] | Some d \<Rightarrow> Events d)
           @ [event_1\<lparr>EventType := ''hover''\<rparr>])"
    by (rule rest [THEN conjunct1])
  have c: "clickCounter (snd (ProcessTrackingEvent clock_1 (event_1\<lparr>EventType := ''hover''\<rparr>) service_2)) =
      clickCounter service_2"
    using rest by blast
  have d: "sessionCounter (snd (ProcessTrackingEvent clock_1 (event_1\<lparr>EventType := ''hover''\<rparr>) service_2)) =
      (if sessions service_2 ''s1'' = None then sessionCounter service_2 + 1 else sessionCounter service_2)"
    using rest by blast
  have e: "clickRate (snd (ProcessTrackingEvent clock_1 (event_1\<lparr>EventType := ''hover''\<rparr>) service_2)) =
     clickRate service_2"
    "cursorPositions (snd (ProcessTrackingEvent clock_1 (event_1\<lparr>EventType := ''hover''\<rparr>) service_2)) =
     cursorPositions service_2"
    using rest by blast+
  show ?thesis
    unfolding a b c d e
    by (simp add: sessions_service_2 counters_service_2)
qed

theorem unknown_event_type_counterexample:
  "EventType (event_1\<lparr>EventType := ''hover''\<rparr>) = ''hover'' \<and>
   fst (ProcessTrackingEvent clock_1 (event_1\<lparr>EventType := ''hover''\<rparr>) (New 0)) = None \<and>
   sessionCounter (New 0) = 0 \<and>
   sessionCounter (snd (ProcessTrackingEvent clock_1 (event_1\<lparr>EventType := ''hover''\<rparr>) (New 0))) = 1"
  by (simp add: ProcessTrackingEvent_nil counters_ProcessTrackingEvent New_def)

text \<open>Attributes of a span: lookup, keys, and one value for each key.\<close>

lemma map_of_setAttribute:
  "map_of (setAttribute k v attrs) x = (if x = k then Some v else map_of attrs x)"
  by (induction attrs) auto

lemma keys_setAttribute:
  "map fst (setAttribute k v attrs) =
     (if k \<in> fst ` set attrs then map fst attrs else map fst attrs @ [k])"
  by (induction attrs) (auto simp: rev_image_eqI)

lemma map_of_SetAttributes_single:
  "map_of (Attributes (SetAttributes [(k, v)] sp)) x =
     (if x = k then Some v else map_of (Attributes sp) x)"
  by (simp add: SetAttributes_def map_of_setAttribute)

lemma keys_SetAttributes_single:
  "fst ` set (Attributes (SetAttributes [(k, v)] sp)) = insert k (fst ` set (Attributes sp))"
  "distinct (map fst (Attributes sp)) \<Longrightarrow> distinct (map fst (Attributes (SetAttributes [(k, v)] sp)))"
  using keys_setAttribute [of k v "Attributes sp"]
  by (auto simp: SetAttributes_def simp flip: set_map split: if_splits)

lemma customAttributes_span:
  "SpanName (customAttributes kvs sp) = SpanName sp"
  "Status (customAttributes kvs sp) = Status sp"
  "RecordedErrors (customAttributes kvs sp) = RecordedErrors sp"
  by (induction kvs sp rule: customAttributes.induct) (simp_all add: SetAttributes_def)

lemma distinct_customAttributes:
  "distinct (map fst (Attributes sp)) \<Longrightarrow>
     distinct (map fst (Attributes (customAttributes kvs sp)))"
  by (induction kvs sp rule: customAttributes.induct)
    (simp_all add: keys_SetAttributes_single)

lemma keys_customAttributes:
  "fst ` set (Attributes (customAttributes kvs sp)) =
     fst ` set (Attributes sp) \<union> {''custom.'' @ key | key str. (key, VString str) \<in> set kvs}"
proof (induction kvs sp rule: customAttributes.induct)
  case (2 key str kvs sp)
  have "{''custom.'' @ k | k s. (k, VString s) \<in> set ((key, VString str) # kvs)} =
      insert (''custom.'' @ key) {''custom.'' @ k | k s. (k, VString s) \<in> set kvs}"
    by auto
  with 2 show ?case
    by (simp add: keys_SetAttributes_single)
qed simp_all

lemma lookup_customAttributes_other:
  "x \<notin> {''custom.'' @ key | key str. (key, VString str) \<in> set kvs} \<Longrightarrow>
     map_of (Attributes (customAttributes kvs sp)) x = map_of (Attributes sp) x"
proof (induction kvs sp rule: customAttributes.induct)
  case (2 key str kvs sp)
  from "2.prems" have a: "x \<noteq> ''custom.'' @ key"
    and b: "x \<notin> {''custom.'' @ k | k s. (k, VString s) \<in> set kvs}"
    by auto
  show ?case
    using "2.IH" [OF b] a by (simp add: map_of_SetAttributes_single)
qed simp_all

lemma lookup_customAttributes_string:
  assumes "distinct (map fst kvs)" and "(key, VString str) \<in> set kvs"
  shows "map_of (Attributes (customAttributes kvs sp)) (''custom.'' @ key) = Some (AString str)"
  using assms
proof (induction kvs sp rule: customAttributes.induct)
  case (2 k s kvs sp)
  show ?case
  proof (cases "(key, VString str) \<in> set kvs")
    case True
    with 2 show ?thesis by simp
  next
    case False
    with "2.prems" have eq: "k = key" "s = str" by auto
    have "key \<notin> fst ` set kvs"
      using "2.prems"(1) eq by simp
    then have "''custom.'' @ key \<notin> {''custom.'' @ k | k s. (k, VString s) \<in> set kvs}"
      by force
    then show ?thesis
      by (simp add: eq lookup_customAttributes_other map_of_SetAttributes_single)
  qed
qed auto


text \<open>
  C10 (amended). For an event of type custom, \<open>ProcessTrackingEvent\<close> returns
  \<open>nil\<close> and ends one span named custom_event (before the span of the call itself).
  The span holds one value for each key. For every entry of the custom map whose value is
  a string it holds the attribute "custom." + key with that string. It holds
  custom.element_id with the event's element id unless the custom map has a string under
  the key element_id, and custom.session_id with the event's session id unless the custom
  map has a string under the key session_id: such a string is set later on the same key
  and replaces the event's value. It holds no other key, so an entry with any other value
  adds nothing. (The keys of a Go map are distinct.)
\<close>

theorem custom_event_attributes:
  assumes "EventType event = ''custom''" and "distinct (map fst (Custom event))"
  shows "fst (ProcessTrackingEvent clk event s) = None \<and>
         tracer (snd (ProcessTrackingEvent clk event s)) =
           tracer s @
             [customSpan event,
              SetAttributes [(''event.type'', AString (EventType event)),
                             (''session.id'', AString (SessionID event)),
                             (''cursor.x'', AInt (CursorX event)),
                             (''cursor.y'', AInt (CursorY event))]
                (tracer_Start ''process_tracking_event'')] \<and>
         SpanName (customSpan event) = ''custom_event'' \<and>
         distinct (map fst (Attributes (customSpan event))) \<and>
         (\<forall>key str. (key, VString str) \<in> set (Custom event) \<longrightarrow>
            map_of (Attributes (customSpan event)) (''custom.'' @ key) = Some (AString str)) \<and>
         ((\<forall>str. (''element_id'', VString str) \<notin> set (Custom event)) \<longrightarrow>
            map_of (Attributes (customSpan event)) ''custom.element_id'' =
              Some (AString (ElementID event))) \<and>
         ((\<forall>str. (''session_id'', VString str) \<notin> set (Custom event)) \<longrightarrow>
            map_of (Attributes (customSpan event)) ''custom.session_id'' =
              Some (AString (SessionID event))) \<and>
         fst ` set (Attributes (customSpan event)) =
           {''custom.element_id'', ''custom.session_id''} \<union>
           {''custom.'' @ key | key str. (key, VString str) \<in> set (Custom event)}"
proof -
  let ?base = "SetAttributes
            [(''custom.element_id'', AString (ElementID event)),
             (''custom.session_id'', AString (SessionID event))] (tracer_Start ''custom_event'')"
  have span: "customSpan event = customAttributes (Custom event) ?base"
    by (simp add: customSpan_def)
  have base: "Attributes ?base =
      [(''custom.element_id'', AString (ElementID event)),
       (''custom.session_id'', AString (SessionID event))]"
    by (simp add: SetAttributes_def tracer_Start_def)
  have nil: "fst (ProcessTrackingEvent clk event s) = None"
    by (rule ProcessTrackingEvent_nil)
  have tr: "tracer (snd (ProcessTrackingEvent clk event s)) =
           tracer s @
             [customSpan event,
              SetAttributes [(''event.type'', AString (EventType event)),
                             (''session.id'', AString (SessionID event)),
                             (''cursor.x'', AInt (CursorX event)),
                             (''cursor.y'', AInt (CursorY event))]
                (tracer_Start ''process_tracking_event'')]"
    using assms(1) by (simp add: ProcessTrackingEvent_def Let_def record_defs updateSession_eq)
  have name: "SpanName (customSpan event) = ''custom_event''"
    by (simp add: span customAttributes_span) (simp add: SetAttributes_def tracer_Start_def)
  have dist: "distinct (map fst (Attributes (customSpan event)))"
    unfolding span by (rule distinct_customAttributes) (simp add: base)
  have str: "map_of (Attributes (customSpan event)) (''custom.'' @ key) = Some (AString str)"
    if "(key, VString str) \<in> set (Custom event)" for key str
    unfolding span using assms(2) that by (rule lookup_customAttributes_string)
  have eid: "map_of (Attributes (customSpan event)) ''custom.element_id'' =
      Some (AString (ElementID event))"
    if "\<forall>str. (''element_id'', VString str) \<notin> set (Custom event)"
  proof -
    have "''custom.element_id'' \<notin>
        {''custom.'' @ key | key str. (key, VString str) \<in> set (Custom event)}"
      using that by auto
    then show ?thesis
      unfolding span by (simp add: lookup_customAttributes_other base)
  qed
  have sid: "map_of (Attributes (customSpan event)) ''custom.session_id'' =
      Some (AString (SessionID event))"
    if "\<forall>str. (''session_id'', VString str) \<notin> set (Custom event)"
  proof -
    have "''custom.session_id'' \<notin>
        {''custom.'' @ key | key str. (key, VString str) \<in> set (Custom event)}"
      using that by auto
    then show ?thesis
      unfolding span by (simp add: lookup_customAttributes_other base)
  qed
  have keys: "fst ` set (Attributes (customSpan event)) =
           {''custom.element_id'', ''custom.session_id''} \<union>
           {''custom.'' @ key | key str. (key, VString str) \<in> set (Custom event)}"
    unfolding span keys_customAttributes base by simp
  from nil tr name dist str eid sid keys show ?thesis by blast
qed

theorem custom_event_attributes_witness:
  "fst (ProcessTrackingEvent clock_1 event_custom (New 0)) = None \<and>
   map SpanName (tracer (snd (ProcessTrackingEvent clock_1 event_custom (New 0)))) =
     [''custom_event'', ''process_tracking_event''] \<and>
   Attributes (customSpan event_custom) =
     [(''custom.element_id'', AString ''zone-1''), (''custom.session_id'', AString ''s1''),
      (''custom.plan'', AString ''pro''), (''custom.tag'', AString ''a'')] \<and>
   map_of (Attributes (customSpan event_custom)) ''custom.plan'' = Some (AString ''pro'') \<and>
   map_of (Attributes (customSpan event_custom)) ''custom.tag'' = Some (AString ''a'') \<and>
   map_of (Attributes (customSpan event_custom)) ''custom.element_id'' = Some (AString ''zone-1'') \<and>
   map_of (Attributes (customSpan event_custom)) ''custom.session_id'' = Some (AString ''s1'') \<and>
   map_of (Attributes (customSpan event_custom)) ''custom.seats'' = None"
proof -
  have t: "EventType event_custom = ''custom''" "distinct (map fst (Custom event_custom))"
    by (simp_all add: event_custom_def)
  note c = custom_event_attributes [OF t, of clock_1 "New 0"]
  have nil: "fst (ProcessTrackingEvent clock_1 event_custom (New 0)) = None"
    using c by blast
  have tr: "tracer (snd (ProcessTrackingEvent clock_1 event_custom (New 0))) =
           tracer (New 0) @
             [customSpan event_custom,
              SetAttributes [(''event.type'', AString (EventType event_custom)),
                             (''session.id'', AString (SessionID event_custom)),
                             (''cursor.x'', AInt (CursorX event_custom)),
                             (''cursor.y'', AInt (CursorY event_custom))]
                (tracer_Start ''process_tracking_event'')]"
    and name: "SpanName (customSpan event_custom) = ''custom_event''"
    using c by blast+
  have attrs: "Attributes (customSpan event_custom) =
     [(''custom.element_id'', AString ''zone-1''), (''custom.session_id'', AString ''s1''),
      (''custom.plan'', AString ''pro''), (''custom.tag'', AString ''a'')]"
    by (simp add: customSpan_def event_custom_def event_1_def SetAttributes_def tracer_Start_def)
  show ?thesis
    unfolding nil tr attrs
    by (simp add: name New_def SetAttributes_def tracer_Start_def)
qed

theorem custom_event_attributes_counterexample:
  "EventType event_dup = ''custom'' \<and>
   ElementID event_dup = ''zone-1'' \<and>
   Custom event_dup = [(''element_id'', VString ''dup'')] \<and>
   Attributes (customSpan event_dup) =
     [(''custom.element_id'', AString ''dup''), (''custom.session_id'', AString ''s1'')]"
  by (simp add: customSpan_def event_dup_def event_1_def SetAttributes_def tracer_Start_def)

end
